theory Spec2Isabelle
  imports Complex_Main
begin

section \<open>Python numbers\<close>

text \<open>
  The fields \<open>score\<close> and \<open>weight\<close> and the two totals hold Python numbers. The sample data
  mixes \<open>int\<close> literals (\<open>90\<close>, \<open>15\<close>) with \<open>float\<close> literals (\<open>77.5\<close>), and
  \<open>score / 100\<close> is a true division, so every weighted score is a \<open>float\<close>.

  \<^item> \<open>PyInt i\<close> is the unbounded Python integer \<open>i\<close>.
  \<^item> \<open>PyFloat x\<close> is the IEEE-754 binary64 number whose exact value is the rational \<open>x\<close>.

  Every arithmetic operation on floats rounds its exact result to the nearest binary64
  number, ties to even (\<open>fl\<close>). The model covers finite numbers: \<open>inf\<close>, \<open>nan\<close> and the sign
  of zero are not represented, and the exponent range is not bounded above, so a result of
  magnitude \<open>2 ^ 1024\<close> or more (Python's \<open>inf\<close> or \<open>OverflowError\<close>) is outside the model.
  Scores and weights are percentages, far from that range.
\<close>

datatype number = PyInt int | PyFloat rat

text \<open>The number of binary digits of \<open>n\<close> (\<open>int.bit_length\<close>), for \<open>0 \<le> n\<close>.\<close>

function bit_length :: "int \<Rightarrow> int" where
  "bit_length n = (if n \<le> 0 then 0 else 1 + bit_length (n div 2))"
  by pat_completeness auto
termination
  by (relation "measure nat") auto

declare bit_length.simps [simp del]

text \<open>For \<open>0 < x\<close>, the exponent \<open>e\<close> with \<open>2 ^ e \<le> x < 2 ^ (e + 1)\<close>.\<close>

definition floor_log2 :: "rat \<Rightarrow> int" where
  "floor_log2 x = (if 1 \<le> x then bit_length \<lfloor>x\<rfloor> - 1
                   else - bit_length (\<lceil>1 / x\<rceil> - 1))"

definition pow2 :: "int \<Rightarrow> rat" where
  "pow2 k = (if 0 \<le> k then 2 ^ nat k else 1 / 2 ^ nat (- k))"

text \<open>Rounding to the nearest integer, a tie going to the even neighbour.\<close>

definition round_half_even :: "rat \<Rightarrow> int" where
  "round_half_even x = (let n = \<lfloor>x\<rfloor>; r = x - of_int n in
     if r < 1 / 2 then n else if 1 / 2 < r then n + 1 else if even n then n else n + 1)"

text \<open>
  Rounding to binary64: 53 significant bits, so the last place of a number in
  \<open>[2 ^ e, 2 ^ (e + 1))\<close> has weight \<open>2 ^ (e - 52)\<close>; below the normal range the last place
  stays at \<open>2 ^ - 1074\<close> (subnormal numbers).
\<close>

definition fl :: "rat \<Rightarrow> rat" where
  "fl x = (if x = 0 then 0 else
     let q = max (floor_log2 \<bar>x\<bar> - 52) (- 1074)
     in of_int (round_half_even (x / pow2 q)) * pow2 q)"

text \<open>The exact value of a number, and its conversion \<open>float(n)\<close>.\<close>

fun val :: "number \<Rightarrow> rat" where
  "val (PyInt i) = of_int i"
| "val (PyFloat x) = x"

fun to_float :: "number \<Rightarrow> rat" where
  "to_float (PyInt i) = fl (of_int i)"
| "to_float (PyFloat x) = x"

text \<open>
  \<open>x / y\<close>: between two ints the exact quotient is rounded once; otherwise an int operand is
  converted first. A zero divisor raises in Python; the only divisor in the program is the
  literal \<open>100\<close>.
\<close>

fun truediv :: "number \<Rightarrow> number \<Rightarrow> number" where
  "truediv (PyInt a) (PyInt b) = PyFloat (fl (of_int a / of_int b))"
| "truediv x y = PyFloat (fl (to_float x / to_float y))"

text \<open>\<open>x * y\<close> and \<open>x + y\<close>: exact on two ints, rounded float arithmetic otherwise.\<close>

fun mul :: "number \<Rightarrow> number \<Rightarrow> number" where
  "mul (PyInt a) (PyInt b) = PyInt (a * b)"
| "mul x y = PyFloat (fl (to_float x * to_float y))"

fun add :: "number \<Rightarrow> number \<Rightarrow> number" where
  "add (PyInt a) (PyInt b) = PyInt (a + b)"
| "add x y = PyFloat (fl (to_float x + to_float y))"

text \<open>Comparisons between numbers are exact, also between an int and a float.\<close>

definition lt :: "number \<Rightarrow> number \<Rightarrow> bool" where
  "lt x y \<longleftrightarrow> val x < val y"

definition gt :: "number \<Rightarrow> number \<Rightarrow> bool" where
  "gt x y \<longleftrightarrow> val y < val x"

definition ge :: "number \<Rightarrow> number \<Rightarrow> bool" where
  "ge x y \<longleftrightarrow> val y \<le> val x"

text \<open>
  The built-in \<open>sum\<close> over an iterable of numbers: starting from the int \<open>0\<close>, the items
  are added from left to right. On ints, as the sample weights are, the sum is exact. (On
  floats, CPython from 3.12 on compensates the rounding errors of the additions, which can
  change the last place of the result; the script only compares the sum with a limit.)
\<close>

definition py_sum :: "number list \<Rightarrow> number" where
  "py_sum xs = foldl add (PyInt 0) xs"


section \<open>Formatting and printing\<close>

definition digit :: "int \<Rightarrow> char" where
  "digit d = ''0123456789'' ! nat d"

text \<open>The decimal digits of an integer \<open>0 \<le> n\<close> (\<open>str(n)\<close>).\<close>

function decimal_digits :: "int \<Rightarrow> string" where
  "decimal_digits n = (if n < 10 then [digit n] else decimal_digits (n div 10) @ [digit (n mod 10)])"
  by pat_completeness auto
termination
  by (relation "measure nat") auto

declare decimal_digits.simps [simp del]

text \<open>
  The format specification \<open>.2f\<close>: the number is converted to a float, and its exact value
  is rounded to two decimal places (ties to even); a negative number keeps its sign also
  when it rounds to zero.
\<close>

definition format_2f :: "number \<Rightarrow> string" where
  "format_2f x = (let v = to_float x; n = round_half_even (\<bar>v\<bar> * 100) in
     (if v < 0 then ''-'' else []) @ decimal_digits (n div 100) @ ''.''
       @ [digit (n mod 100 div 10), digit (n mod 10)])"

text \<open>
  A rendered number has two decimal digits when it is an optional minus sign, at least one
  digit, a point and exactly two digits.
\<close>

definition is_digit :: "char \<Rightarrow> bool" where
  "is_digit c \<longleftrightarrow> c \<in> set ''0123456789''"

definition two_decimals :: "string \<Rightarrow> bool" where
  "two_decimals s =
     (let t = (if take 1 s = ''-'' then drop 1 s else s); k = length t
      in 4 \<le> k \<and> list_all is_digit (take (k - 3) t) \<and> t ! (k - 3) = CHR ''.''
         \<and> list_all is_digit (drop (k - 2) t))"

text \<open>
  Standard output is the list of the chunks written to it, in order. \<open>print(s)\<close> writes
  \<open>s\<close> and a newline.
\<close>

definition print :: "string \<Rightarrow> string" where
  "print s = s @ [CHR 0x0A]"

definition tab :: char where
  "tab = CHR 0x09"


section \<open>class Assignment\<close>

record assignment =
  name :: string
  type :: string
  score :: number
  weight :: number

definition Assignment :: "string \<Rightarrow> string \<Rightarrow> number \<Rightarrow> number \<Rightarrow> assignment" where
  "Assignment n t s w = \<lparr>name = n, type = t, score = s, weight = w\<rparr>"

definition calculate_weighted_score :: "assignment \<Rightarrow> number" where
  "calculate_weighted_score self = mul (truediv (score self) (PyInt 100)) (weight self)"


section \<open>class Student\<close>

record student =
  assignments :: "assignment list"
  formative_total :: number
  summative_total :: number

definition Student :: "assignment list \<Rightarrow> student" where
  "Student as = \<lparr>assignments = as, formative_total = PyInt 0, summative_total = PyInt 0\<rparr>"

definition resubmission_notice :: "string \<Rightarrow> string" where
  "resubmission_notice n =
     ''Assignment '' @ [CHR 0x27] @ n @ [CHR 0x27] @ '' is eligible for resubmission.''"

text \<open>
  The loop of \<open>calculate_scores\<close>: the student is updated in place and the notices are
  printed as the loop goes; here both are threaded through.
\<close>

fun calculate_scores_loop ::
  "assignment list \<Rightarrow> student \<Rightarrow> string list \<Rightarrow> student \<times> string list" where
  "calculate_scores_loop [] self out = (self, out)"
| "calculate_scores_loop (a # as) self out =
     (let weighted_score = calculate_weighted_score a;
          self' = (if type a = ''Formative''
                   then self\<lparr>formative_total := add (formative_total self) weighted_score\<rparr>
                   else self\<lparr>summative_total := add (summative_total self) weighted_score\<rparr>);
          out' = (if type a = ''Formative'' \<and> lt (score a) (PyInt 50)
                  then out @ [print (resubmission_notice (name a))] else out)
      in calculate_scores_loop as self' out')"

definition calculate_scores :: "student \<Rightarrow> student \<times> string list" where
  "calculate_scores self = calculate_scores_loop (assignments self) self []"

definition check_progression :: "student \<Rightarrow> student \<times> string list" where
  "check_progression self =
     (let passed_formative = ge (formative_total self) (PyInt 30);
          passed_summative = ge (summative_total self) (PyInt 20)
      in (self,
          if passed_formative \<and> passed_summative
          then [print ''Congratulations! You have passed the course and progressed to the next level.'']
          else [print ''Unfortunately, you have not met the minimum requirements.'']
               @ (if \<not> passed_formative then [print ''Your formative score is below 30%.''] else [])
               @ (if \<not> passed_summative then [print ''Your summative score is below 20%.''] else [])))"

definition transcript_row :: "assignment \<Rightarrow> string" where
  "transcript_row a =
     name a @ [tab] @ type a @ [tab] @ format_2f (score a) @ [tab] @ format_2f (weight a)"

definition generate_transcript :: "student \<Rightarrow> student \<times> string list" where
  "generate_transcript self =
     (self,
      [print ''scores in linux and IT tools'',
       print (''Assignment'' @ [tab] @ ''Type'' @ [tab] @ ''Score(%)'' @ [tab] @ ''Weight(%)''),
       print (replicate 40 CHR ''-'')]
      @ map (\<lambda>a. print (transcript_row a)) (assignments self)
      @ [print ([CHR 0x0A] @ ''Formative Total: '' @ format_2f (formative_total self) @ ''%''),
         print (''Summative Total: '' @ format_2f (summative_total self) @ ''%'')])"


section \<open>The script\<close>

text \<open>The module-level list \<open>assignments\<close> (the sample data).\<close>

definition sample_assignments :: "assignment list" where
  "sample_assignments =
     [Assignment ''Assignment 1'' ''Formative'' (PyInt 90) (PyInt 15),
      Assignment ''Assignment 2'' ''Formative'' (PyInt 65) (PyInt 10),
      Assignment ''Assignment 3'' ''Formative'' (PyInt 100) (PyInt 10),
      Assignment ''Assignment 4'' ''Formative'' (PyInt 100) (PyInt 15),
      Assignment ''Midterm'' ''Summative'' (PyFloat (155 / 2)) (PyInt 20),
      Assignment ''Final Exam'' ''Summative'' (PyFloat (195 / 2)) (PyInt 20)]"

definition total_formative_weight :: "assignment list \<Rightarrow> number" where
  "total_formative_weight as = py_sum (map weight (filter (\<lambda>a. type a = ''Formative'') as))"

definition total_summative_weight :: "assignment list \<Rightarrow> number" where
  "total_summative_weight as = py_sum (map weight (filter (\<lambda>a. type a = ''Summative'') as))"

definition error_message :: string where
  "error_message = ''Error: Formative or summative weights exceed the allowed limit.''"

definition order_prompt :: string where
  "order_prompt = [CHR 0x0A] @
     ''Would you like to see your transcript in ascending or descending order? (ascending/descending): ''"

datatype py_error = EOFError

text \<open>
  A run of the script on a list of records. \<open>stdin\<close> is the line typed at the prompt, or
  \<open>None\<close> at end of input, where \<open>input\<close> raises. The result holds what was written to
  standard output, the module's variables at the end (\<open>None\<close> for a variable never
  bound; \<open>records\<close> is the list \<open>assignments\<close>, which the student object shares) and
  the exception that ended the run, if any.
\<close>

record run =
  stdout :: "string list"
  records :: "assignment list"
  student_var :: "student option"
  order :: "string option"
  raised :: "py_error option"

definition main :: "assignment list \<Rightarrow> string option \<Rightarrow> run" where
  "main as stdin =
     (if gt (total_formative_weight as) (PyInt 60) \<or> gt (total_summative_weight as) (PyInt 40)
      then \<lparr>stdout = [print error_message], records = as, student_var = None,
            order = None, raised = None\<rparr>
      else
        let (s1, out1) = calculate_scores (Student as);
            (s2, out2) = check_progression s1
        in (case stdin of
              None \<Rightarrow> \<lparr>stdout = out1 @ out2 @ [order_prompt], records = assignments s2,
                        student_var = Some s2, order = None, raised = Some EOFError\<rparr>
            | Some line \<Rightarrow>
                let (s3, out3) = generate_transcript s2
                in \<lparr>stdout = out1 @ out2 @ [order_prompt] @ out3, records = assignments s3,
                    student_var = Some s3, order = Some line, raised = None\<rparr>))"


section \<open>The rounding function on known values\<close>

text \<open>
  The binary64 numbers nearest to \<open>0.1\<close> and to \<open>0.1 + 0.2\<close> (the latter prints as
  \<open>0.30000000000000004\<close>), and ties that go to the even neighbour.
\<close>

lemma fl_tenth: "fl (1 / 10) = 3602879701896397 / 2 ^ 55"
  by code_simp

lemma fl_tenth_plus_fifth: "fl (fl (1 / 10) + fl (2 / 10)) = 5404319552844596 / 2 ^ 54"
  by code_simp

lemma fl_tie_to_even: "fl (2 ^ 53 + 1) = 2 ^ 53" "fl (2 ^ 53 + 3) = 2 ^ 53 + 4"
  by code_simp+


section \<open>The loop of calculate_scores\<close>

lemma loop_formative:
  "formative_total (fst (calculate_scores_loop as self out)) =
     foldl add (formative_total self)
       (map calculate_weighted_score (filter (\<lambda>a. type a = ''Formative'') as))"
  by (induction as arbitrary: self out) (simp_all add: Let_def)

lemma loop_summative:
  "summative_total (fst (calculate_scores_loop as self out)) =
     foldl add (summative_total self)
       (map calculate_weighted_score (filter (\<lambda>a. type a \<noteq> ''Formative'') as))"
  by (induction as arbitrary: self out) (simp_all add: Let_def)

lemma loop_assignments:
  "assignments (fst (calculate_scores_loop as self out)) = assignments self"
  by (induction as arbitrary: self out) (simp_all add: Let_def)

lemma loop_stdout:
  "snd (calculate_scores_loop as self out) =
     out @ map (\<lambda>n. print (resubmission_notice n))
       (map name (filter (\<lambda>a. type a = ''Formative'' \<and> lt (score a) (PyInt 50)) as))"
  by (induction as arbitrary: self out) (simp_all add: Let_def)

lemma calculate_scores_assignments:
  "assignments (fst (calculate_scores self)) = assignments self"
  by (simp add: calculate_scores_def loop_assignments)

lemma non_formative_is_summative:
  assumes "list_all (\<lambda>a. type a = ''Formative'' \<or> type a = ''Summative'') as"
  shows "filter (\<lambda>a. type a \<noteq> ''Formative'') as = filter (\<lambda>a. type a = ''Summative'') as"
  using assms by (induction as) auto


section \<open>The sample data\<close>

lemma sample_formative_total:
  "formative_total (fst (calculate_scores (Student sample_assignments))) = PyFloat 45"
  by code_simp

lemma sample_summative_total:
  "summative_total (fst (calculate_scores (Student sample_assignments))) = PyFloat 35"
  by code_simp

lemma sample_formative_twice:
  "formative_total (fst (calculate_scores (fst (calculate_scores (Student sample_assignments)))))
     = PyFloat 90"
  by code_simp

lemma sample_summative_twice:
  "summative_total (fst (calculate_scores (fst (calculate_scores (Student sample_assignments)))))
     = PyFloat 70"
  by code_simp

lemma sample_weights:
  "val (total_formative_weight sample_assignments) \<le> 60"
  "val (total_summative_weight sample_assignments) \<le> 40"
  by code_simp+

lemma sample_types:
  "list_all (\<lambda>a. type a = ''Formative'' \<or> type a = ''Summative'') sample_assignments"
  by code_simp


section \<open>Rendering with two decimals\<close>

lemma digit_is_digit: "0 \<le> d \<Longrightarrow> d < 10 \<Longrightarrow> is_digit (digit d)"
proof -
  assume "0 \<le> d" "d < 10"
  then have "d \<in> {0, 1, 2, 3, 4, 5, 6, 7, 8, 9}" by simp presburger
  then show ?thesis
    by (auto simp: is_digit_def digit_def)
qed

lemma is_digit_not_minus: "is_digit c \<Longrightarrow> c \<noteq> CHR ''-''"
  by (auto simp: is_digit_def)

lemma decimal_digits_digits:
  "0 \<le> n \<Longrightarrow> list_all is_digit (decimal_digits n) \<and> decimal_digits n \<noteq> []"
proof (induction n rule: decimal_digits.induct)
  case (1 n)
  show ?case
  proof (cases "n < 10")
    case True
    with "1.prems" show ?thesis
      by (subst (1 2) decimal_digits.simps) (simp add: digit_is_digit)
  next
    case False
    then have "0 \<le> n div 10" by simp
    with False "1.IH" have "list_all is_digit (decimal_digits (n div 10))" by simp
    moreover have "is_digit (digit (n mod 10))"
      by (rule digit_is_digit) simp_all
    ultimately show ?thesis using False
      by (subst (1 2) decimal_digits.simps) simp
  qed
qed

lemma round_half_even_nonneg: "0 \<le> x \<Longrightarrow> 0 \<le> round_half_even x"
  by (auto simp: round_half_even_def Let_def)

lemma two_decimals_shape:
  assumes "list_all is_digit ds" "ds \<noteq> []" "is_digit a" "is_digit b"
    and sign: "sg = ''-'' \<or> sg = []"
  shows "two_decimals (sg @ ds @ ''.'' @ [a, b])"
proof -
  have first: "take 1 ds \<noteq> ''-''"
    using assms(1,2) by (cases ds) (auto dest: is_digit_not_minus)
  have unsigned: "two_decimals (ds @ ''.'' @ [a, b])"
    using assms(1-4) first by (cases ds) (auto simp: two_decimals_def Let_def nth_append)
  from sign show ?thesis
  proof
    assume "sg = ''-''"
    then show ?thesis using assms(1-4)
      by (cases ds) (auto simp: two_decimals_def Let_def nth_append)
  next
    assume "sg = []"
    then show ?thesis using unsigned by simp
  qed
qed

lemma format_2f_two_decimals: "two_decimals (format_2f x)"
proof -
  define n where "n = round_half_even (\<bar>to_float x\<bar> * 100)"
  have n0: "0 \<le> n" unfolding n_def by (rule round_half_even_nonneg) simp
  then have "0 \<le> n div 100" by simp
  then have d: "list_all is_digit (decimal_digits (n div 100))" "decimal_digits (n div 100) \<noteq> []"
    using decimal_digits_digits by blast+
  have a: "is_digit (digit (n mod 100 div 10))"
    by (rule digit_is_digit) (use n0 in auto)
  have b: "is_digit (digit (n mod 10))"
    by (rule digit_is_digit) simp_all
  have "two_decimals ((if to_float x < 0 then ''-'' else []) @ decimal_digits (n div 100) @ ''.''
       @ [digit (n mod 100 div 10), digit (n mod 10)])"
    by (rule two_decimals_shape[OF d a b]) simp
  then show ?thesis
    by (simp add: format_2f_def Let_def n_def)
qed


section \<open>The script's two branches\<close>

lemma main_rejected:
  assumes "gt (total_formative_weight as) (PyInt 60) \<or> gt (total_summative_weight as) (PyInt 40)"
  shows "main as inp = \<lparr>stdout = [print error_message], records = as, student_var = None,
           order = None, raised = None\<rparr>"
  using assms by (simp add: main_def)

lemma main_accepted:
  assumes "\<not> (gt (total_formative_weight as) (PyInt 60) \<or> gt (total_summative_weight as) (PyInt 40))"
  shows "main as (Some line) =
     \<lparr>stdout = snd (calculate_scores (Student as))
         @ snd (check_progression (fst (calculate_scores (Student as))))
         @ [order_prompt]
         @ snd (generate_transcript (fst (calculate_scores (Student as)))),
      records = as, student_var = Some (fst (calculate_scores (Student as))),
      order = Some line, raised = None\<rparr>"
  using assms
  by (simp add: main_def check_progression_def generate_transcript_def Let_def
      case_prod_beta calculate_scores_assignments Student_def)

lemma main_accepted_student:
  assumes "\<not> (gt (total_formative_weight as) (PyInt 60) \<or> gt (total_summative_weight as) (PyInt 40))"
  shows "student_var (main as inp) = Some (fst (calculate_scores (Student as)))"
    and "2 \<le> length (stdout (main as inp))"
  using assms
  by (simp_all add: main_def check_progression_def generate_transcript_def Let_def
      case_prod_beta split: option.splits)


section \<open>The claims\<close>

text \<open>
  C1. For every list of assignment records (each of type Formative or Summative) whose
  formative weights sum to at most 60 and whose summative weights sum to at most 40,
  \<open>calculate_scores\<close> on a fresh student leaves in \<open>formative_total\<close> the sum of
  \<open>(score / 100) * weight\<close> over the formative records and in \<open>summative_total\<close> the same
  sum over the summative records. The sums are the program's own: floating-point additions
  from left to right, starting from \<open>0\<close>.
\<close>

theorem calculate_scores_totals:
  assumes "val (total_formative_weight as) \<le> 60"
    and "val (total_summative_weight as) \<le> 40"
    and "list_all (\<lambda>a. type a = ''Formative'' \<or> type a = ''Summative'') as"
  shows "formative_total (fst (calculate_scores (Student as))) =
           foldl add (PyInt 0) (map (\<lambda>a. mul (truediv (score a) (PyInt 100)) (weight a))
                    (filter (\<lambda>a. type a = ''Formative'') as))
       \<and> summative_total (fst (calculate_scores (Student as))) =
           foldl add (PyInt 0) (map (\<lambda>a. mul (truediv (score a) (PyInt 100)) (weight a))
                    (filter (\<lambda>a. type a = ''Summative'') as))"
proof -
  have w: "calculate_weighted_score = (\<lambda>a. mul (truediv (score a) (PyInt 100)) (weight a))"
    by (rule ext) (simp add: calculate_weighted_score_def)
  have "formative_total (fst (calculate_scores (Student as))) =
          foldl add (PyInt 0) (map calculate_weighted_score (filter (\<lambda>a. type a = ''Formative'') as))"
    by (simp add: calculate_scores_def loop_formative Student_def)
  moreover have "summative_total (fst (calculate_scores (Student as))) =
          foldl add (PyInt 0) (map calculate_weighted_score (filter (\<lambda>a. type a = ''Summative'') as))"
    using non_formative_is_summative[OF assms(3)]
    by (simp add: calculate_scores_def loop_summative Student_def)
  ultimately show ?thesis
    by (simp only: w)
qed

theorem calculate_scores_totals_witness:
  "val (total_formative_weight sample_assignments) \<le> 60
   \<and> val (total_summative_weight sample_assignments) \<le> 40
   \<and> list_all (\<lambda>a. type a = ''Formative'' \<or> type a = ''Summative'') sample_assignments
   \<and> formative_total (fst (calculate_scores (Student sample_assignments))) =
        foldl add (PyInt 0) (map (\<lambda>a. mul (truediv (score a) (PyInt 100)) (weight a))
                 (filter (\<lambda>a. type a = ''Formative'') sample_assignments))
   \<and> summative_total (fst (calculate_scores (Student sample_assignments))) =
        foldl add (PyInt 0) (map (\<lambda>a. mul (truediv (score a) (PyInt 100)) (weight a))
                 (filter (\<lambda>a. type a = ''Summative'') sample_assignments))"
  using calculate_scores_totals[OF sample_weights sample_types] sample_weights sample_types
  by blast

text \<open>
  C2, as stated: on the sample data the totals are 49.5 and 39.5. They are not: the four
  formative contributions are 13.5, 6.5, 10 and 15, the two summative ones 15.5 and 19.5.
\<close>

theorem sample_totals_counterexample:
  "\<not> (val (formative_total (fst (calculate_scores (Student sample_assignments)))) = 99 / 2
      \<and> val (summative_total (fst (calculate_scores (Student sample_assignments)))) = 79 / 2)"
  by (simp add: sample_formative_total sample_summative_total)

text \<open>
  C2, amended: on the sample data \<open>calculate_scores\<close> yields \<open>formative_total = 45.0\<close> and
  \<open>summative_total = 35.0\<close>, exactly.
\<close>

theorem sample_totals:
  "formative_total (fst (calculate_scores (Student sample_assignments))) = PyFloat 45
   \<and> summative_total (fst (calculate_scores (Student sample_assignments))) = PyFloat 35"
  by (simp add: sample_formative_total sample_summative_total)

text \<open>
  C3. \<open>check_progression\<close> reports that the student has passed (it prints the
  congratulation, and nothing else) if and only if \<open>formative_total >= 30\<close> and
  \<open>summative_total >= 20\<close>.
\<close>

theorem check_progression_passed:
  "snd (check_progression self) =
     [print ''Congratulations! You have passed the course and progressed to the next level.'']
   \<longleftrightarrow> 30 \<le> val (formative_total self) \<and> 20 \<le> val (summative_total self)"
  by (simp add: check_progression_def Let_def ge_def print_def)

text \<open>
  C4. The resubmission notices printed by \<open>calculate_scores\<close> name exactly the formative
  records whose score is strictly below 50, one notice per record, in the order of the list.
\<close>

theorem resubmission_names:
  "snd (calculate_scores self) =
     map (\<lambda>n. print (resubmission_notice n))
       (map name (filter (\<lambda>a. type a = ''Formative'' \<and> val (score a) < 50) (assignments self)))"
  by (simp add: calculate_scores_def loop_stdout lt_def)

text \<open>
  C5. The script rejects the records (it prints the error message and creates no student)
  if and only if the formative weights sum to more than 60 or the summative weights sum to
  more than 40. The witness is a list whose formative weights sum to 61.
\<close>

theorem validation_fails_iff:
  "(stdout (main as inp) = [print error_message]
      \<longleftrightarrow> 60 < val (py_sum (map weight (filter (\<lambda>a. type a = ''Formative'') as)))
        \<or> 40 < val (py_sum (map weight (filter (\<lambda>a. type a = ''Summative'') as))))
   \<and> (student_var (main as inp) = None
      \<longleftrightarrow> 60 < val (py_sum (map weight (filter (\<lambda>a. type a = ''Formative'') as)))
        \<or> 40 < val (py_sum (map weight (filter (\<lambda>a. type a = ''Summative'') as))))"
proof (cases "gt (total_formative_weight as) (PyInt 60) \<or> gt (total_summative_weight as) (PyInt 40)")
  case True
  then show ?thesis
    using main_rejected[OF True, of inp]
    by (simp add: gt_def total_formative_weight_def total_summative_weight_def)
next
  case False
  have "length (stdout (main as inp)) \<noteq> 1"
    using main_accepted_student(2)[OF False, of inp] by simp
  then have "stdout (main as inp) \<noteq> [print error_message]"
    by auto
  then show ?thesis
    using False main_accepted_student(1)[OF False, of inp]
    by (simp add: gt_def total_formative_weight_def total_summative_weight_def)
qed

theorem validation_fails_iff_witness:
  "val (py_sum (map weight (filter (\<lambda>a. type a = ''Formative'')
       [Assignment ''Quiz 1'' ''Formative'' (PyInt 70) (PyInt 30),
        Assignment ''Quiz 2'' ''Formative'' (PyInt 80) (PyInt 31),
        Assignment ''Exam'' ''Summative'' (PyInt 60) (PyInt 40)]))) = 61
   \<and> stdout (main
       [Assignment ''Quiz 1'' ''Formative'' (PyInt 70) (PyInt 30),
        Assignment ''Quiz 2'' ''Formative'' (PyInt 80) (PyInt 31),
        Assignment ''Exam'' ''Summative'' (PyInt 60) (PyInt 40)] (Some ''ascending''))
      = [print error_message]"
proof -
  have sum: "val (py_sum (map weight (filter (\<lambda>a. type a = ''Formative'')
       [Assignment ''Quiz 1'' ''Formative'' (PyInt 70) (PyInt 30),
        Assignment ''Quiz 2'' ''Formative'' (PyInt 80) (PyInt 31),
        Assignment ''Exam'' ''Summative'' (PyInt 60) (PyInt 40)]))) = 61"
    by (simp add: Assignment_def py_sum_def)
  show ?thesis
    using validation_fails_iff[of
        "[Assignment ''Quiz 1'' ''Formative'' (PyInt 70) (PyInt 30),
          Assignment ''Quiz 2'' ''Formative'' (PyInt 80) (PyInt 31),
          Assignment ''Exam'' ''Summative'' (PyInt 60) (PyInt 40)]" "Some ''ascending''"] sum
    by simp
qed

text \<open>
  C6. Whenever the weights exceed a limit, the script prints the error message and nothing
  else; no student is created, so there are no totals, no progression message and no
  transcript; the prompt is not shown; the list of records is as it was.
\<close>

theorem validation_failure_skips_pipeline:
  assumes "60 < val (total_formative_weight as) \<or> 40 < val (total_summative_weight as)"
  shows "main as inp = \<lparr>stdout = [print error_message], records = as, student_var = None,
           order = None, raised = None\<rparr>"
  using assms by (intro main_rejected) (simp add: gt_def)

theorem validation_failure_skips_pipeline_witness:
  "(60 < val (total_formative_weight [Assignment ''Essay'' ''Formative'' (PyInt 80) (PyInt 61)])
    \<or> 40 < val (total_summative_weight [Assignment ''Essay'' ''Formative'' (PyInt 80) (PyInt 61)]))
   \<and> main [Assignment ''Essay'' ''Formative'' (PyInt 80) (PyInt 61)] (Some ''descending'') =
       \<lparr>stdout = [print error_message],
        records = [Assignment ''Essay'' ''Formative'' (PyInt 80) (PyInt 61)],
        student_var = None, order = None, raised = None\<rparr>"
proof -
  have over: "60 < val (total_formative_weight [Assignment ''Essay'' ''Formative'' (PyInt 80) (PyInt 61)])
    \<or> 40 < val (total_summative_weight [Assignment ''Essay'' ''Formative'' (PyInt 80) (PyInt 61)])"
    by (simp add: total_formative_weight_def Assignment_def py_sum_def)
  show ?thesis
    using validation_failure_skips_pipeline[OF over, of "Some ''descending''"] over
    by simp
qed

text \<open>
  C7. In the transcript, the score and the weight of every row and the two totals are
  rendered by the format \<open>.2f\<close>, and whatever that format renders has exactly two decimal
  digits.
\<close>

theorem transcript_two_decimals:
  "snd (generate_transcript self) =
     [print ''scores in linux and IT tools'',
      print (''Assignment'' @ [tab] @ ''Type'' @ [tab] @ ''Score(%)'' @ [tab] @ ''Weight(%)''),
      print (replicate 40 CHR ''-'')]
     @ map (\<lambda>a. print (name a @ [tab] @ type a @ [tab] @ format_2f (score a) @ [tab]
                       @ format_2f (weight a))) (assignments self)
     @ [print ([CHR 0x0A] @ ''Formative Total: '' @ format_2f (formative_total self) @ ''%''),
        print (''Summative Total: '' @ format_2f (summative_total self) @ ''%'')]
   \<and> (\<forall>x. two_decimals (format_2f x))"
  by (simp add: generate_transcript_def transcript_row_def format_2f_two_decimals)

text \<open>
  C8. The answer typed at the prompt has no effect on what is printed: two runs on the same
  records print the same, whatever the two answers are; and when the records pass
  validation, the output ends with the transcript, whose rows are the records in the order
  of the list.
\<close>

theorem transcript_ignores_order:
  "stdout (main as (Some order1)) = stdout (main as (Some order2))
   \<and> (val (total_formative_weight as) \<le> 60 \<and> val (total_summative_weight as) \<le> 40 \<longrightarrow>
       (\<exists>before formative_line summative_line.
          stdout (main as (Some order1)) =
            before
            @ [print ''scores in linux and IT tools'',
               print (''Assignment'' @ [tab] @ ''Type'' @ [tab] @ ''Score(%)'' @ [tab] @ ''Weight(%)''),
               print (replicate 40 CHR ''-'')]
            @ map (\<lambda>a. print (transcript_row a)) as
            @ [formative_line, summative_line]))"
proof (cases "gt (total_formative_weight as) (PyInt 60) \<or> gt (total_summative_weight as) (PyInt 40)")
  case True
  then show ?thesis
    by (auto simp: main_rejected gt_def)
next
  case False
  have "\<exists>before formative_line summative_line.
          stdout (main as (Some order1)) =
            before
            @ [print ''scores in linux and IT tools'',
               print (''Assignment'' @ [tab] @ ''Type'' @ [tab] @ ''Score(%)'' @ [tab] @ ''Weight(%)''),
               print (replicate 40 CHR ''-'')]
            @ map (\<lambda>a. print (transcript_row a)) as
            @ [formative_line, summative_line]"
    apply (rule exI[of _ "snd (calculate_scores (Student as))
         @ snd (check_progression (fst (calculate_scores (Student as)))) @ [order_prompt]"])
    apply (simp add: main_accepted[OF False] generate_transcript_def
        calculate_scores_assignments)
    apply (simp add: Student_def)
    done
  then show ?thesis
    by (simp add: main_accepted[OF False])
qed

theorem transcript_ignores_order_witness:
  "stdout (main sample_assignments (Some ''ascending''))
     = stdout (main sample_assignments (Some ''anything else''))
   \<and> val (total_formative_weight sample_assignments) \<le> 60
   \<and> val (total_summative_weight sample_assignments) \<le> 40
   \<and> (\<exists>before formative_line summative_line.
          stdout (main sample_assignments (Some ''ascending'')) =
            before
            @ [print ''scores in linux and IT tools'',
               print (''Assignment'' @ [tab] @ ''Type'' @ [tab] @ ''Score(%)'' @ [tab] @ ''Weight(%)''),
               print (replicate 40 CHR ''-'')]
            @ map (\<lambda>a. print (transcript_row a)) sample_assignments
            @ [formative_line, summative_line])"
  using transcript_ignores_order[of sample_assignments "''ascending''" "''anything else''"]
    sample_weights
  by blast

text \<open>
  C9. \<open>check_progression\<close> only reads the totals: the student it leaves behind has the
  same list of assignments, the same \<open>formative_total\<close> and the same \<open>summative_total\<close>.
\<close>

theorem check_progression_frame:
  "assignments (fst (check_progression self)) = assignments self
   \<and> formative_total (fst (check_progression self)) = formative_total self
   \<and> summative_total (fst (check_progression self)) = summative_total self"
  by (simp add: check_progression_def Let_def)

text \<open>
  C10, as stated: two calls of \<open>calculate_scores\<close> in a row leave twice the totals of a
  single call. In floating point they need not: with scores 1 and 14 and weights 1 and 7,
  one call leaves \<open>0.9900000000000001\<close> and two calls leave \<open>1.98\<close>, which is not the
  double.
\<close>

theorem calculate_scores_twice_counterexample:
  "val (formative_total (fst (calculate_scores (fst (calculate_scores (Student
      [Assignment ''Lab 1'' ''Formative'' (PyInt 1) (PyInt 1),
       Assignment ''Lab 2'' ''Formative'' (PyInt 14) (PyInt 7)]))))))
   \<noteq> 2 * val (formative_total (fst (calculate_scores (Student
      [Assignment ''Lab 1'' ''Formative'' (PyInt 1) (PyInt 1),
       Assignment ''Lab 2'' ''Formative'' (PyInt 14) (PyInt 7)]))))"
  by code_simp

text \<open>
  C10, amended: a fresh student has both totals \<open>0\<close>, and \<open>calculate_scores\<close> adds to the
  totals without resetting them: a second call adds every weighted score once more, from
  left to right, to the totals the first call left. So the operation is not idempotent; on
  the sample data the second call leaves exactly twice the totals of the first, 90 and 70.
\<close>

theorem calculate_scores_accumulates:
  "formative_total (Student as) = PyInt 0 \<and> summative_total (Student as) = PyInt 0
   \<and> formative_total (fst (calculate_scores (fst (calculate_scores (Student as))))) =
       foldl add (formative_total (fst (calculate_scores (Student as))))
         (map calculate_weighted_score (filter (\<lambda>a. type a = ''Formative'') as))
   \<and> summative_total (fst (calculate_scores (fst (calculate_scores (Student as))))) =
       foldl add (summative_total (fst (calculate_scores (Student as))))
         (map calculate_weighted_score (filter (\<lambda>a. type a \<noteq> ''Formative'') as))
   \<and> val (formative_total (fst (calculate_scores (fst (calculate_scores
         (Student sample_assignments)))))) =
       2 * val (formative_total (fst (calculate_scores (Student sample_assignments))))
   \<and> val (summative_total (fst (calculate_scores (fst (calculate_scores
         (Student sample_assignments)))))) =
       2 * val (summative_total (fst (calculate_scores (Student sample_assignments))))"
proof -
  have "assignments (fst (calculate_scores (Student as))) = as"
    by (simp add: calculate_scores_assignments Student_def)
  then have "formative_total (fst (calculate_scores (fst (calculate_scores (Student as))))) =
       foldl add (formative_total (fst (calculate_scores (Student as))))
         (map calculate_weighted_score (filter (\<lambda>a. type a = ''Formative'') as))"
    and "summative_total (fst (calculate_scores (fst (calculate_scores (Student as))))) =
       foldl add (summative_total (fst (calculate_scores (Student as))))
         (map calculate_weighted_score (filter (\<lambda>a. type a \<noteq> ''Formative'') as))"
    by (simp_all add: calculate_scores_def[of "fst (calculate_scores (Student as))"]
        loop_formative loop_summative)
  moreover have "formative_total (Student as) = PyInt 0 \<and> summative_total (Student as) = PyInt 0"
    by (simp add: Student_def)
  moreover have "val (formative_total (fst (calculate_scores (fst (calculate_scores
         (Student sample_assignments)))))) =
       2 * val (formative_total (fst (calculate_scores (Student sample_assignments))))"
    by (simp add: sample_formative_total sample_formative_twice)
  moreover have "val (summative_total (fst (calculate_scores (fst (calculate_scores
         (Student sample_assignments)))))) =
       2 * val (summative_total (fst (calculate_scores (Student sample_assignments))))"
    by (simp add: sample_summative_total sample_summative_twice)
  ultimately show ?thesis
    by blast
qed

end
